theory Spec2Isabelle
  imports Main "HOL-Library.Char_ord" "HOL-Library.List_Lexorder" "HOL-Library.Sublist"
begin

section \<open>The task store of app.py\<close>

text \<open>
  A shallow embedding of \<^verbatim>\<open>src/app.py\<close>. The two module globals \<^verbatim>\<open>tareas\<close> and
  \<^verbatim>\<open>ultimo_id\<close> and the file \<^verbatim>\<open>tareas.json\<close> form the state; every function that
  reads or assigns them takes the state and returns the new one. Python's \<^verbatim>\<open>int\<close> is
  unbounded, so ids are \<open>int\<close>. A Python \<^verbatim>\<open>str\<close> is a \<open>string\<close>; the order on strings
  that \<^verbatim>\<open>sorted\<close> uses (lexicographic, by code point) is the one of
  \<open>Char_ord\<close> and \<open>List_Lexorder\<close>.
\<close>

subsection \<open>Data\<close>

text \<open>
  A task is the dict with the seven keys that \<^verbatim>\<open>agregar_tarea\<close> and
  \<^verbatim>\<open>cargar_tareas\<close> build; no function of the module adds or removes a key. The key
  \<^verbatim>\<open>"id"\<close> is the field \<open>id_tarea\<close> (\<open>id\<close> is the identity function of HOL).
\<close>

record tarea =
  id_tarea :: int
  texto :: string
  completada :: bool
  motivo :: string
  inhabilitada :: bool
  lista :: string
  tema :: string

text \<open>
  A task object as it stands in the JSON document. \<^verbatim>\<open>cargar_tareas\<close> reads every key
  with \<^verbatim>\<open>t.get(key, default)\<close>, so each key may be absent (\<open>None\<close>). A key that is
  present holds a value of the JSON type that \<^verbatim>\<open>guardar_tareas\<close> writes for it (an
  integer, a string or a boolean), on which \<^verbatim>\<open>int\<close>, \<^verbatim>\<open>str\<close> and \<^verbatim>\<open>bool\<close> are the
  identity. A document with a value of another type on which the conversion raises is
  \<open>OtraForma\<close> below; one whose values of other types convert without raising (an id
  written as a string of digits, say) is outside this model.
\<close>

record jtarea =
  j_id :: "int option"
  j_texto :: "string option"
  j_completada :: "bool option"
  j_motivo :: "string option"
  j_inhabilitada :: "bool option"
  j_lista :: "string option"
  j_tema :: "string option"

text \<open>
  The file \<^verbatim>\<open>tareas.json\<close>, by what \<^verbatim>\<open>cargar_tareas\<close> meets when it reads it:
  \<^item> \<open>NoExiste\<close>: \<^verbatim>\<open>os.path.exists\<close> is false;
  \<^item> \<open>Ilegible\<close>: \<^verbatim>\<open>open\<close> raises \<^verbatim>\<open>OSError\<close>, or the bytes are UTF-8 text that is
    not JSON and \<^verbatim>\<open>json.load\<close> raises \<^verbatim>\<open>JSONDecodeError\<close>; the \<^verbatim>\<open>except\<close> clause
    catches both;
  \<^item> \<open>MalCodificado\<close>: the bytes are not UTF-8 (for one, a file cut inside a character
    of several bytes); reading raises \<^verbatim>\<open>UnicodeDecodeError\<close>, which the \<^verbatim>\<open>except\<close>
    clause does not catch;
  \<^item> \<open>OtraForma\<close>: JSON on which the comprehension raises (a value that cannot be
    iterated, an element without \<^verbatim>\<open>.get\<close>, an \<^verbatim>\<open>"id"\<close> that \<^verbatim>\<open>int\<close> rejects);
    nothing catches that either;
  \<^item> \<open>Documento\<close>: a JSON array of task objects (with no objects it also stands for
    the empty object and the empty string, which iterate as the empty array does).
  The text that \<^verbatim>\<open>json.dump\<close> prints and \<^verbatim>\<open>json.load\<close> parses back is abstracted to
  the document it denotes.
\<close>

datatype disco = NoExiste | Ilegible | MalCodificado | OtraForma | Documento "jtarea list"

text \<open>The exceptions that leave \<^verbatim>\<open>cargar_tareas\<close> uncaught.\<close>

datatype excepcion = UnicodeDecodeError | ErrorDeForma

text \<open>
  What the operating system does with the write of \<^verbatim>\<open>guardar_tareas\<close>: the document is
  written; \<^verbatim>\<open>open\<close> raises \<^verbatim>\<open>OSError\<close> and the file stays as it was; or the file was
  opened (and so truncated) and the write raises \<^verbatim>\<open>OSError\<close>, which leaves a proper
  prefix of the array's text, never valid JSON: a prefix that is UTF-8 text
  (\<open>FalloAlEscribir\<close>) or one that ends inside a character of several bytes
  (\<open>FalloEnCaracter\<close>; \<^verbatim>\<open>ensure_ascii=False\<close> writes such characters as they are).
\<close>

datatype escritura = Escrito | FalloAlAbrir | FalloAlEscribir | FalloEnCaracter

record estado =
  tareas :: "tarea list"
  ultimo_id :: int
  disco :: disco

subsection \<open>Reading a task's list name\<close>

text \<open>
  Every read of the list name in the module is
  \<^verbatim>\<open>t.get("lista", "general") or "general"\<close>: the empty string reads as
  \<^verbatim>\<open>"general"\<close>.
\<close>

definition nombre_lista :: "tarea \<Rightarrow> string" where
  "nombre_lista t = (if lista t = [] then ''general'' else lista t)"

subsection \<open>Loading and saving\<close>

text \<open>\<^verbatim>\<open>max((t["id"] for t in tareas), default=0)\<close>\<close>

definition max_ids :: "tarea list \<Rightarrow> int" where
  "max_ids ts = (case map id_tarea ts of [] \<Rightarrow> 0 | x # xs \<Rightarrow> fold max xs x)"

text \<open>The dict that the comprehension of \<^verbatim>\<open>cargar_tareas\<close> builds from one object.\<close>

definition desde_json :: "jtarea \<Rightarrow> tarea" where
  "desde_json j =
     \<lparr> id_tarea = (case j_id j of None \<Rightarrow> 0 | Some n \<Rightarrow> n),
       texto = (case j_texto j of None \<Rightarrow> [] | Some x \<Rightarrow> x),
       completada = (case j_completada j of None \<Rightarrow> False | Some b \<Rightarrow> b),
       motivo = (case j_motivo j of None \<Rightarrow> [] | Some x \<Rightarrow> x),
       inhabilitada = (case j_inhabilitada j of None \<Rightarrow> False | Some b \<Rightarrow> b),
       lista = (let l = (case j_lista j of None \<Rightarrow> ''general'' | Some x \<Rightarrow> x)
                in if l = [] then ''general'' else l),
       tema = (case j_tema j of None \<Rightarrow> [] | Some x \<Rightarrow> x) \<rparr>"

text \<open>
  \<^verbatim>\<open>cargar_tareas\<close> assigns both globals from what the file holds and from nothing else;
  \<open>Inl\<close> is an exception that leaves the function, the globals as they were.
\<close>

definition cargar_tareas :: "estado \<Rightarrow> excepcion + estado" where
  "cargar_tareas s =
     (case disco s of
        NoExiste \<Rightarrow> Inr (s\<lparr>tareas := [], ultimo_id := 0\<rparr>)
      | Ilegible \<Rightarrow> Inr (s\<lparr>tareas := [], ultimo_id := 0\<rparr>)
      | MalCodificado \<Rightarrow> Inl UnicodeDecodeError
      | OtraForma \<Rightarrow> Inl ErrorDeForma
      | Documento datos \<Rightarrow>
          (let ts = map desde_json datos
           in Inr (s\<lparr>tareas := ts, ultimo_id := max_ids ts\<rparr>)))"

text \<open>The object that \<^verbatim>\<open>json.dump\<close> writes for one task: all seven keys.\<close>

definition a_json :: "tarea \<Rightarrow> jtarea" where
  "a_json t =
     \<lparr> j_id = Some (id_tarea t), j_texto = Some (texto t),
       j_completada = Some (completada t), j_motivo = Some (motivo t),
       j_inhabilitada = Some (inhabilitada t), j_lista = Some (lista t),
       j_tema = Some (tema t) \<rparr>"

text \<open>\<^verbatim>\<open>guardar_tareas\<close> swallows \<^verbatim>\<open>OSError\<close>; the first argument is the outcome of the write.\<close>

definition guardar_tareas :: "escritura \<Rightarrow> estado \<Rightarrow> estado" where
  "guardar_tareas w s =
     (case w of
        Escrito \<Rightarrow> s\<lparr>disco := Documento (map a_json (tareas s))\<rparr>
      | FalloAlAbrir \<Rightarrow> s
      | FalloAlEscribir \<Rightarrow> s\<lparr>disco := Ilegible\<rparr>
      | FalloEnCaracter \<Rightarrow> s\<lparr>disco := MalCodificado\<rparr>)"

subsection \<open>Queries\<close>

text \<open>
  \<^verbatim>\<open>[t for t in tareas if (t.get("lista", "general") or "general") == nombre]\<close>, the
  filter of \<^verbatim>\<open>construir_resumen_listas\<close>, \<^verbatim>\<open>obtener_tema_lista\<close> and \<^verbatim>\<open>vista_tareas\<close>.
\<close>

definition tareas_de_lista :: "string \<Rightarrow> tarea list \<Rightarrow> tarea list" where
  "tareas_de_lista nombre ts = filter (\<lambda>t. nombre_lista t = nombre) ts"

text \<open>
  \<^verbatim>\<open>obtener_listas\<close>: \<open>nombres\<close> is a Python set, and \<^verbatim>\<open>sorted\<close> of a set is the
  ascending list of its elements.
\<close>

definition obtener_listas :: "tarea list \<Rightarrow> string list" where
  "obtener_listas ts =
     (let nombres = set (map nombre_lista ts)
      in if nombres = {} then [''general'']
         else sorted_list_of_set (insert ''general'' nombres))"

record resumen =
  nombre :: string
  total :: nat
  activas :: nat
  completadas :: nat
  tema_resumen :: string

text \<open>\<^verbatim>\<open>next((t.get("tema", "") for t in tareas_de_lista if t.get("tema")), "")\<close>\<close>

fun primer_tema :: "tarea list \<Rightarrow> string" where
  "primer_tema [] = []"
| "primer_tema (t # ts) = (if tema t \<noteq> [] then tema t else primer_tema ts)"

definition construir_resumen_listas :: "tarea list \<Rightarrow> resumen list" where
  "construir_resumen_listas ts =
     map (\<lambda>n.
            let de_lista = tareas_de_lista n ts
            in \<lparr> nombre = n,
                 total = length de_lista,
                 activas = length (filter (\<lambda>t. \<not> inhabilitada t) de_lista),
                 completadas = length (filter completada de_lista),
                 tema_resumen = primer_tema de_lista \<rparr>)
         (obtener_listas ts)"

definition obtener_tema_lista :: "string \<Rightarrow> tarea list \<Rightarrow> string" where
  "obtener_tema_lista nombre_l ts = primer_tema (tareas_de_lista nombre_l ts)"

subsection \<open>Operations on one task\<close>

text \<open>
  \<^verbatim>\<open>agregar_tarea\<close> increments the counter, appends the new dict, saves and returns the
  dict. It does not look at \<open>texto\<close>.
\<close>

definition agregar_tarea :: "escritura \<Rightarrow> string \<Rightarrow> string \<Rightarrow> estado \<Rightarrow> tarea \<times> estado" where
  "agregar_tarea w texto_n lista_n s =
     (let nuevo_id = ultimo_id s + 1;
          lista_normalizada = (if lista_n = [] then ''general'' else lista_n);
          t = \<lparr> id_tarea = nuevo_id, texto = texto_n, completada = False, motivo = [],
                inhabilitada = False, lista = lista_normalizada, tema = [] \<rparr>
      in (t, guardar_tareas w (s\<lparr>tareas := tareas s @ [t], ultimo_id := nuevo_id\<rparr>)))"







subsection \<open>Request handlers\<close>

text \<open>
  \<^verbatim>\<open>str.strip()\<close> removes the leading and trailing characters for which
  \<^verbatim>\<open>str.isspace\<close> holds; among the code points below 256 these are 9 to 13, 28 to 32,
  133 and 160.
\<close>

definition es_espacio :: "char \<Rightarrow> bool" where
  "es_espacio c =
     (let n = (of_char c :: nat)
      in (9 \<le> n \<and> n \<le> 13) \<or> (28 \<le> n \<and> n \<le> 32) \<or> n = 133 \<or> n = 160)"

definition strip :: "string \<Rightarrow> string" where
  "strip x = rev (dropWhile es_espacio (rev (dropWhile es_espacio x)))"

text \<open>
  A handler's answer is a redirect: to the view of one list
  (\<^verbatim>\<open>url_for("vista_tareas", lista=...)\<close>) or to the overview
  (\<^verbatim>\<open>url_for("vista_listas")\<close>).
\<close>

datatype respuesta = A_vista_tareas string | A_vista_listas

text \<open>
  \<^verbatim>\<open>request.form.get(k, "")\<close> and \<^verbatim>\<open>request.args.get("lista", "general")\<close>: a
  parameter of the request is \<open>None\<close> when the request does not carry it.
\<close>

definition param :: "string option \<Rightarrow> string \<Rightarrow> string" where
  "param p por_defecto = (case p of None \<Rightarrow> por_defecto | Some v \<Rightarrow> v)"

definition ruta_agregar_tarea ::
  "escritura \<Rightarrow> string option \<Rightarrow> string option \<Rightarrow> estado \<Rightarrow> respuesta \<times> estado" where
  "ruta_agregar_tarea w form_texto arg_lista s =
     (let texto_n = strip (param form_texto []);
          lista_n = param arg_lista ''general''
      in (A_vista_tareas lista_n,
          if texto_n \<noteq> [] then snd (agregar_tarea w texto_n lista_n s) else s))"

definition crear_lista :: "string option \<Rightarrow> estado \<Rightarrow> respuesta \<times> estado" where
  "crear_lista form_nombre s =
     (let n = strip (param form_nombre []);
          nombre_n = (if n = [] then ''general'' else n)
      in (A_vista_tareas nombre_n, s))"

definition renombrar_lista ::
  "escritura \<Rightarrow> string \<Rightarrow> string option \<Rightarrow> estado \<Rightarrow> respuesta \<times> estado" where
  "renombrar_lista w lista_nombre form_nuevo s =
     (let nuevo_nombre = strip (param form_nuevo [])
      in if nuevo_nombre = [] \<or> nuevo_nombre = lista_nombre then (A_vista_listas, s)
         else (A_vista_listas,
               guardar_tareas w
                 (s\<lparr>tareas :=
                      map (\<lambda>t. if nombre_lista t = lista_nombre
                                then t\<lparr>lista := nuevo_nombre\<rparr> else t)
                          (tareas s)\<rparr>)))"

definition eliminar_lista :: "escritura \<Rightarrow> string \<Rightarrow> estado \<Rightarrow> respuesta \<times> estado" where
  "eliminar_lista w lista_nombre s =
     (if lista_nombre = ''general'' then (A_vista_listas, s)
      else (A_vista_listas,
            guardar_tareas w
              (s\<lparr>tareas := filter (\<lambda>t. nombre_lista t \<noteq> lista_nombre) (tareas s)\<rparr>)))"

definition actualizar_tema_lista ::
  "escritura \<Rightarrow> string \<Rightarrow> string option \<Rightarrow> estado \<Rightarrow> respuesta \<times> estado" where
  "actualizar_tema_lista w lista_nombre form_tema s =
     (let nuevo_tema = strip (param form_tema [])
      in (A_vista_listas,
          guardar_tareas w
            (s\<lparr>tareas :=
                 map (\<lambda>t. if nombre_lista t = lista_nombre
                           then t\<lparr>tema := nuevo_tema\<rparr> else t)
                     (tareas s)\<rparr>)))"

subsection \<open>Sequences of calls\<close>

text \<open>
  A run of calls of \<^verbatim>\<open>agregar_tarea\<close>, one per element (each with the outcome of its
  write, its text and its list); the result is the tasks the calls returned, in the order
  of the calls, and the state after the last one.
\<close>

fun agregar_varias :: "(escritura \<times> string \<times> string) list \<Rightarrow> estado \<Rightarrow> tarea list \<times> estado" where
  "agregar_varias [] s = ([], s)"
| "agregar_varias ((w, texto_n, lista_n) # ps) s =
     (let (t, s1) = agregar_tarea w texto_n lista_n s;
          (ts, s2) = agregar_varias ps s1
      in (t # ts, s2))"

subsection \<open>Example data\<close>

text \<open>
  A small state used to evaluate the properties below: three tasks, the second one
  disabled, no file on disk yet.
\<close>

definition ej_t1 :: tarea where
  "ej_t1 = \<lparr> id_tarea = 1, texto = ''buy milk'', completada = False, motivo = [],
             inhabilitada = False, lista = ''general'', tema = [] \<rparr>"

definition ej_t2 :: tarea where
  "ej_t2 = \<lparr> id_tarea = 2, texto = ''report'', completada = True, motivo = [],
             inhabilitada = True, lista = ''work'', tema = ''Q1 goals'' \<rparr>"

definition ej_t3 :: tarea where
  "ej_t3 = \<lparr> id_tarea = 3, texto = ''call'', completada = False, motivo = ''later'',
             inhabilitada = False, lista = ''work'', tema = [] \<rparr>"

definition ej_estado :: estado where
  "ej_estado = \<lparr> tareas = [ej_t1, ej_t2, ej_t3], ultimo_id = 3, disco = NoExiste \<rparr>"

text \<open>
  A file in which two objects carry the same id, the first of them disabled, and the state
  that loading it gives.
\<close>

definition ej_doc_repetido :: "jtarea list" where
  "ej_doc_repetido =
     [\<lparr> j_id = Some 7, j_texto = Some ''old'', j_completada = None, j_motivo = None,
        j_inhabilitada = Some True, j_lista = None, j_tema = None \<rparr>,
      \<lparr> j_id = Some 7, j_texto = Some ''new'', j_completada = None, j_motivo = None,
        j_inhabilitada = None, j_lista = None, j_tema = None \<rparr>]"

definition ej_repetidos :: estado where
  "ej_repetidos =
     \<lparr> tareas =
         [\<lparr> id_tarea = 7, texto = ''old'', completada = False, motivo = [],
            inhabilitada = True, lista = ''general'', tema = [] \<rparr>,
          \<lparr> id_tarea = 7, texto = ''new'', completada = False, motivo = [],
            inhabilitada = False, lista = ''general'', tema = [] \<rparr>],
       ultimo_id = 7, disco = Documento ej_doc_repetido \<rparr>"

section \<open>Properties\<close>

lemma tareas_guardar [simp]: "tareas (guardar_tareas w s) = tareas s"
  by (cases w) (simp_all add: guardar_tareas_def)

lemma ultimo_id_guardar [simp]: "ultimo_id (guardar_tareas w s) = ultimo_id s"
  by (cases w) (simp_all add: guardar_tareas_def)

subsection \<open>Ids assigned by agregar_tarea\<close>

lemma max_ids_Nil: "max_ids [] = 0"
  by (simp add: max_ids_def)

lemma max_ids_Max: "ts \<noteq> [] \<Longrightarrow> max_ids ts = Max (id_tarea ` set ts)"
proof -
  assume "ts \<noteq> []"
  then obtain t us where ts: "ts = t # us" by (cases ts) auto
  have "Max (set (id_tarea t # map id_tarea us)) = fold max (map id_tarea us) (id_tarea t)"
    by (rule Max.set_eq_fold)
  then show ?thesis by (simp add: max_ids_def ts)
qed

lemma id_le_max_ids: "t \<in> set ts \<Longrightarrow> id_tarea t \<le> max_ids ts"
proof -
  assume t: "t \<in> set ts"
  then have "ts \<noteq> []" by auto
  then have "max_ids ts = Max (id_tarea ` set ts)" by (rule max_ids_Max)
  with t show ?thesis by simp
qed

lemma una_vez:
  "distinct (map f xs) \<Longrightarrow> x \<in> set xs \<Longrightarrow> length (filter (\<lambda>u. f u = f x) xs) = 1"
proof (induction xs)
  case Nil
  then show ?case by simp
next
  case (Cons a xs)
  show ?case
  proof (cases "f a = f x")
    case True
    with Cons.prems have "f x \<notin> f ` set xs" by auto
    then have "\<forall>u \<in> set xs. f u \<noteq> f x" by (metis imageI)
    then have "filter (\<lambda>u. f u = f x) xs = []" by (auto simp: filter_empty_conv)
    with True show ?thesis by simp
  next
    case False
    with Cons show ?thesis by auto
  qed
qed

lemma agregar_tarea_efecto:
  "agregar_tarea w x l s = (t, s') \<Longrightarrow>
     id_tarea t = ultimo_id s + 1 \<and> tareas s' = tareas s @ [t] \<and> ultimo_id s' = ultimo_id s + 1"
  by (auto simp: agregar_tarea_def Let_def)

lemma agregar_varias_efecto:
  "agregar_varias ps s = (cs, s') \<Longrightarrow>
     tareas s' = tareas s @ cs \<and>
     map id_tarea cs = map (\<lambda>k. ultimo_id s + 1 + int k) [0..<length ps] \<and>
     ultimo_id s' = ultimo_id s + int (length ps)"
proof (induction ps arbitrary: s cs s')
  case Nil
  then show ?case by simp
next
  case (Cons p ps)
  obtain w x l where p: "p = (w, x, l)" by (cases p) auto
  obtain t s1 where a: "agregar_tarea w x l s = (t, s1)" by (cases "agregar_tarea w x l s") auto
  obtain us s2 where r: "agregar_varias ps s1 = (us, s2)" by (cases "agregar_varias ps s1") auto
  from Cons.prems p a r have cs: "cs = t # us" and s': "s' = s2" by simp_all
  note e = agregar_tarea_efecto [OF a]
  note ih = Cons.IH [OF r]
  have "map id_tarea us = map (\<lambda>k. ultimo_id s + 1 + int (Suc k)) [0..<length ps]"
    using ih e by simp
  then have "map id_tarea (t # us) = map (\<lambda>k. ultimo_id s + 1 + int k) (0 # map Suc [0..<length ps])"
    using e by (simp add: comp_def)
  moreover have "0 # map Suc [0..<length ps] = [0..<length (p # ps)]"
    by (simp add: upt_conv_Cons map_Suc_upt del: upt_Suc)
  ultimately show ?case using ih e cs s' by simp
qed

text \<open>
  C1. Take any state whose counter \<open>ultimo_id\<close> is the maximum id of its tasks (0 when
  there are none), and any sequence of calls of \<^verbatim>\<open>agregar_tarea\<close>, whatever happens to
  each write. The tasks created are appended in the order of the calls; their ids are
  strictly increasing in that order; each is greater than every id that was there before
  (no id is used again); each occurs exactly once in the whole collection; and the counter
  is again the maximum id, so the same holds for the calls that follow.
\<close>

theorem agregar_ids_crecientes:
  assumes inv: "ultimo_id s = max_ids (tareas s)"
    and run: "agregar_varias ps s = (creadas, s')"
  shows "tareas s' = tareas s @ creadas \<and>
         length creadas = length ps \<and>
         sorted_wrt (<) (map id_tarea creadas) \<and>
         (\<forall>t \<in> set creadas. \<forall>u \<in> set (tareas s). id_tarea u < id_tarea t) \<and>
         (\<forall>t \<in> set creadas. length (filter (\<lambda>u. id_tarea u = id_tarea t) (tareas s')) = 1) \<and>
         ultimo_id s' = max_ids (tareas s')"
proof -
  note e = agregar_varias_efecto [OF run]
  have ap: "tareas s' = tareas s @ creadas" using e by simp
  have ids: "map id_tarea creadas = map (\<lambda>k. ultimo_id s + 1 + int k) [0..<length ps]"
    using e by simp
  have len: "length creadas = length ps"
    using arg_cong [OF ids, of length] by simp
  have nth: "id_tarea (creadas ! k) = ultimo_id s + 1 + int k" if "k < length creadas" for k
    using that len arg_cong [OF ids, of "\<lambda>xs. xs ! k"] by simp
  have srt: "sorted_wrt (<) (map id_tarea creadas)"
    unfolding ids by (simp add: sorted_wrt_map sorted_wrt_iff_nth_less)
  have old: "id_tarea u \<le> ultimo_id s" if "u \<in> set (tareas s)" for u
    using id_le_max_ids [OF that] inv by simp
  have new: "ultimo_id s < id_tarea t" if "t \<in> set creadas" for t
  proof -
    from that obtain k where "k < length creadas" "t = creadas ! k"
      by (auto simp: in_set_conv_nth)
    then show ?thesis using nth by simp
  qed
  have fresh: "\<forall>t \<in> set creadas. \<forall>u \<in> set (tareas s). id_tarea u < id_tarea t"
    using old new by fastforce
  have dist: "distinct (map id_tarea creadas)"
    using srt by (simp add: strict_sorted_iff)
  have once: "\<forall>t \<in> set creadas. length (filter (\<lambda>u. id_tarea u = id_tarea t) (tareas s')) = 1"
  proof
    fix t assume t: "t \<in> set creadas"
    have "filter (\<lambda>u. id_tarea u = id_tarea t) (tareas s) = []"
    proof -
      have "id_tarea u \<noteq> id_tarea t" if "u \<in> set (tareas s)" for u
        using old [OF that] new [OF t] by simp
      then show ?thesis by (simp add: filter_empty_conv)
    qed
    moreover have "length (filter (\<lambda>u. id_tarea u = id_tarea t) creadas) = 1"
      using dist t by (rule una_vez)
    ultimately show "length (filter (\<lambda>u. id_tarea u = id_tarea t) (tareas s')) = 1"
      by (simp add: ap)
  qed
  have cnt: "ultimo_id s' = max_ids (tareas s')"
  proof (cases creadas)
    case Nil
    then show ?thesis using e inv len by simp
  next
    case (Cons c cs)
    then have ne: "tareas s' \<noteq> []" using ap by simp
    have pos: "0 < length creadas" using Cons by simp
    have "last creadas = creadas ! (length creadas - 1)"
      using pos by (simp add: last_conv_nth)
    moreover have "id_tarea (creadas ! (length creadas - 1)) = ultimo_id s + 1 + int (length creadas - 1)"
      using pos by (intro nth) simp
    moreover have "ultimo_id s + 1 + int (length creadas - 1) = ultimo_id s + int (length ps)"
      using pos len by (cases ps) simp_all
    ultimately have last: "id_tarea (last creadas) = ultimo_id s'"
      using e by simp
    have "Max (id_tarea ` set (tareas s')) = ultimo_id s'"
    proof (rule Max_eqI)
      show "finite (id_tarea ` set (tareas s'))" by simp
      show "ultimo_id s' \<in> id_tarea ` set (tareas s')"
        using last Cons ap by (metis image_eqI last_in_set list.distinct(1) set_append UnCI)
      fix y assume "y \<in> id_tarea ` set (tareas s')"
      then obtain u where u: "u \<in> set (tareas s')" "y = id_tarea u" by auto
      show "y \<le> ultimo_id s'"
      proof (cases "u \<in> set (tareas s)")
        case True
        then show ?thesis using old u e by fastforce
      next
        case False
        then have "u \<in> set creadas" using u ap by simp
        then obtain k where "k < length creadas" "u = creadas ! k"
          by (auto simp: in_set_conv_nth)
        then show ?thesis using nth u e len by simp
      qed
    qed
    then show ?thesis using max_ids_Max [OF ne] by simp
  qed
  show ?thesis using ap len srt fresh once cnt by blast
qed

theorem agregar_ids_crecientes_witness:
  "ultimo_id \<lparr>tareas = [\<lparr>id_tarea = 3, texto = ''a'', completada = True, motivo = [],
                                 inhabilitada = False, lista = ''general'', tema = []\<rparr>],
               ultimo_id = 3, disco = NoExiste\<rparr>
     = max_ids [\<lparr>id_tarea = 3, texto = ''a'', completada = True, motivo = [],
                  inhabilitada = False, lista = ''general'', tema = []\<rparr>] \<and>
   map id_tarea
     (fst (agregar_varias [(Escrito, ''b'', []), (FalloAlAbrir, ''c'', ''work'')]
        \<lparr>tareas = [\<lparr>id_tarea = 3, texto = ''a'', completada = True, motivo = [],
                           inhabilitada = False, lista = ''general'', tema = []\<rparr>],
         ultimo_id = 3, disco = NoExiste\<rparr>)) = [4, 5] \<and>
   sorted_wrt (<) (map id_tarea
     (fst (agregar_varias [(Escrito, ''b'', []), (FalloAlAbrir, ''c'', ''work'')]
        \<lparr>tareas = [\<lparr>id_tarea = 3, texto = ''a'', completada = True, motivo = [],
                           inhabilitada = False, lista = ''general'', tema = []\<rparr>],
         ultimo_id = 3, disco = NoExiste\<rparr>)))"
proof -
  let ?t = "\<lparr>id_tarea = 3, texto = ''a'', completada = True, motivo = [],
             inhabilitada = False, lista = ''general'', tema = []\<rparr>"
  let ?s = "\<lparr>tareas = [?t], ultimo_id = 3, disco = NoExiste\<rparr>"
  let ?ps = "[(Escrito, ''b'', []), (FalloAlAbrir, ''c'', ''work'')]"
  have inv: "ultimo_id ?s = max_ids (tareas ?s)"
    by (simp add: max_ids_def)
  have run: "agregar_varias ?ps ?s = (fst (agregar_varias ?ps ?s), snd (agregar_varias ?ps ?s))"
    by simp
  have ids: "map id_tarea (fst (agregar_varias ?ps ?s)) = [4, 5]"
    by (simp add: agregar_tarea_def guardar_tareas_def Let_def)
  from agregar_ids_crecientes [OF inv run] inv ids show ?thesis
    by simp
qed

subsection \<open>The first task with a given id\<close>




text \<open>When the ids are pairwise distinct, every position is the first with its id.\<close>

lemma ids_distintos_primero:
  "distinct (map id_tarea ts) \<Longrightarrow> k < length ts \<Longrightarrow> \<forall>j<k. id_tarea (ts ! j) \<noteq> id_tarea (ts ! k)"
proof (intro allI impI)
  fix j assume d: "distinct (map id_tarea ts)" and k: "k < length ts" and j: "j < k"
  from j k have jk: "j < length (map id_tarea ts)" "k < length (map id_tarea ts)" "j \<noteq> k"
    by simp_all
  from nth_eq_iff_index_eq [OF d jk(1) jk(2)] jk(3)
  have "map id_tarea ts ! j \<noteq> map id_tarea ts ! k" by blast
  with j k show "id_tarea (ts ! j) \<noteq> id_tarea (ts ! k)" by simp
qed






text \<open>
  The claim C3 as written, for every enabled task of the collection, fails when an earlier
  task carries the same id. Loading the file of the example gives two tasks with id 7,
  the first disabled; the second is enabled and present, yet \<^verbatim>\<open>completar_tarea\<close> and
  \<^verbatim>\<open>marcar_incompleta\<close> with its id stop at the first one and return \<open>False\<close>, the
  state as it was.
\<close>

lemma ej_repetidos_cargado:
  "cargar_tareas \<lparr>tareas = [], ultimo_id = 0, disco = Documento ej_doc_repetido\<rparr> =
     Inr ej_repetidos"
  by (simp add: cargar_tareas_def ej_doc_repetido_def ej_repetidos_def desde_json_def
      max_ids_def Let_def)


subsection \<open>What a mutation of one task leaves alone\<close>






subsection \<open>Saving and loading\<close>

lemma desde_a_json: "desde_json (a_json t) = t\<lparr>lista := nombre_lista t\<rparr>"
  by (simp add: desde_json_def a_json_def nombre_lista_def)

lemma nombre_lista_idem: "nombre_lista (t\<lparr>lista := nombre_lista t\<rparr>) = nombre_lista t"
  by (simp add: nombre_lista_def)

lemma cargar_de_guardado:
  "cargar_tareas (r\<lparr>disco := disco (guardar_tareas Escrito s)\<rparr>) =
     Inr (r\<lparr>disco := Documento (map a_json (tareas s)),
             tareas := map (\<lambda>t. t\<lparr>lista := nombre_lista t\<rparr>) (tareas s),
             ultimo_id := max_ids (map (\<lambda>t. t\<lparr>lista := nombre_lista t\<rparr>) (tareas s))\<rparr>)"
  by (simp add: cargar_tareas_def guardar_tareas_def Let_def comp_def desde_a_json)

text \<open>
  What loading gives after a write that failed: what the file held before, nothing, or an
  exception. And what it makes of an empty list name.
\<close>

lemma cargar_tras_fallo:
  "cargar_tareas (guardar_tareas FalloAlAbrir s) = cargar_tareas s \<and>
   cargar_tareas (guardar_tareas FalloAlEscribir s) =
     Inr (s\<lparr>disco := Ilegible, tareas := [], ultimo_id := 0\<rparr>) \<and>
   cargar_tareas (guardar_tareas FalloEnCaracter s) = Inl UnicodeDecodeError"
  by (simp add: cargar_tareas_def guardar_tareas_def)

lemma cargar_lista_vacia:
  "cargar_tareas (guardar_tareas Escrito (s\<lparr>tareas := [t\<lparr>lista := []\<rparr>]\<rparr>)) =
     Inr (s\<lparr>tareas := [t\<lparr>lista := ''general''\<rparr>], ultimo_id := id_tarea t,
             disco := Documento [a_json (t\<lparr>lista := []\<rparr>)]\<rparr>)"
  by (simp add: cargar_tareas_def guardar_tareas_def Let_def desde_a_json nombre_lista_def
      max_ids_def)

text \<open>
  C4, as the code has it. Let \<^verbatim>\<open>guardar_tareas\<close> write the collection of a state \<open>s\<close>
  and let the write succeed. Then \<^verbatim>\<open>cargar_tareas\<close>, run on the file that was written
  and with anything at all in memory (the state \<open>r\<close>: other tasks, another counter),
  returns, and sets the collection to one of the same length and order in which every
  task has the same id, text, completed flag, reason, disabled flag, list name (as every
  read of the module takes it, the empty string standing for \<^verbatim>\<open>"general"\<close>) and theme
  as in \<open>s\<close>. When no task of \<open>s\<close> has the empty string in \<open>lista\<close> (no operation
  of the module stores one) the collection is the one of \<open>s\<close>, record for record. The id
  counter becomes the maximum id of the loaded tasks, and 0 when there are none. The file
  is left as written.
\<close>

theorem guardar_y_cargar:
  "\<exists>s'. cargar_tareas (r\<lparr>disco := disco (guardar_tareas Escrito s)\<rparr>) = Inr s' \<and>
     disco s' = disco (guardar_tareas Escrito s) \<and>
     map id_tarea (tareas s') = map id_tarea (tareas s) \<and>
     map texto (tareas s') = map texto (tareas s) \<and>
     map completada (tareas s') = map completada (tareas s) \<and>
     map motivo (tareas s') = map motivo (tareas s) \<and>
     map inhabilitada (tareas s') = map inhabilitada (tareas s) \<and>
     map nombre_lista (tareas s') = map nombre_lista (tareas s) \<and>
     map tema (tareas s') = map tema (tareas s) \<and>
     ((\<forall>t \<in> set (tareas s). lista t \<noteq> []) \<longrightarrow> tareas s' = tareas s) \<and>
     ultimo_id s' = (if tareas s' = [] then 0 else Max (id_tarea ` set (tareas s')))"
proof -
  let ?ts' = "map (\<lambda>t. t\<lparr>lista := nombre_lista t\<rparr>) (tareas s)"
  let ?s' = "r\<lparr>disco := Documento (map a_json (tareas s)), tareas := ?ts',
              ultimo_id := max_ids ?ts'\<rparr>"
  have carga: "cargar_tareas (r\<lparr>disco := disco (guardar_tareas Escrito s)\<rparr>) = Inr ?s'"
    by (rule cargar_de_guardado)
  have d: "disco ?s' = disco (guardar_tareas Escrito s)"
    by (simp add: guardar_tareas_def)
  have ts: "tareas ?s' = ?ts'" by simp
  have campos: "map id_tarea ?ts' = map id_tarea (tareas s)"
    "map texto ?ts' = map texto (tareas s)"
    "map completada ?ts' = map completada (tareas s)"
    "map motivo ?ts' = map motivo (tareas s)"
    "map inhabilitada ?ts' = map inhabilitada (tareas s)"
    "map tema ?ts' = map tema (tareas s)"
    by (simp_all add: comp_def)
  have nl: "map nombre_lista ?ts' = map nombre_lista (tareas s)"
    by (simp add: comp_def nombre_lista_idem)
  have igual: "(\<forall>t \<in> set (tareas s). lista t \<noteq> []) \<longrightarrow> ?ts' = tareas s"
  proof
    assume a: "\<forall>t \<in> set (tareas s). lista t \<noteq> []"
    have "?ts' = map (\<lambda>t. t) (tareas s)"
      by (rule map_cong) (use a in \<open>simp_all add: nombre_lista_def\<close>)
    then show "?ts' = tareas s" by simp
  qed
  have cnt: "ultimo_id ?s' = (if ?ts' = [] then 0 else Max (id_tarea ` set ?ts'))"
    using max_ids_Max [of ?ts'] max_ids_Nil by auto
  have "cargar_tareas (r\<lparr>disco := disco (guardar_tareas Escrito s)\<rparr>) = Inr ?s' \<and>
     disco ?s' = disco (guardar_tareas Escrito s) \<and>
     map id_tarea (tareas ?s') = map id_tarea (tareas s) \<and>
     map texto (tareas ?s') = map texto (tareas s) \<and>
     map completada (tareas ?s') = map completada (tareas s) \<and>
     map motivo (tareas ?s') = map motivo (tareas s) \<and>
     map inhabilitada (tareas ?s') = map inhabilitada (tareas s) \<and>
     map nombre_lista (tareas ?s') = map nombre_lista (tareas s) \<and>
     map tema (tareas ?s') = map tema (tareas s) \<and>
     ((\<forall>t \<in> set (tareas s). lista t \<noteq> []) \<longrightarrow> tareas ?s' = tareas s) \<and>
     ultimo_id ?s' = (if tareas ?s' = [] then 0 else Max (id_tarea ` set (tareas ?s')))"
    unfolding ts using carga d campos nl igual cnt by (intro conjI)
  then show ?thesis by (rule exI)
qed

theorem guardar_y_cargar_witness:
  "cargar_tareas \<lparr>tareas = [ej_t3], ultimo_id = 99,
                   disco = disco (guardar_tareas Escrito ej_estado)\<rparr> =
     Inr \<lparr>tareas = [ej_t1, ej_t2, ej_t3], ultimo_id = 3,
          disco = disco (guardar_tareas Escrito ej_estado)\<rparr>"
proof -
  let ?d = "disco (guardar_tareas Escrito ej_estado)"
  let ?r = "\<lparr>tareas = [ej_t3], ultimo_id = 99, disco = NoExiste\<rparr>"
  have h: "\<forall>t \<in> set (tareas ej_estado). lista t \<noteq> []"
    by (simp add: ej_estado_def ej_t1_def ej_t2_def ej_t3_def)
  have rd: "?r\<lparr>disco := ?d\<rparr> = \<lparr>tareas = [ej_t3], ultimo_id = 99, disco = ?d\<rparr>"
    by simp
  from guardar_y_cargar [where r = ?r and s = ej_estado] obtain s' where
    c: "cargar_tareas (?r\<lparr>disco := ?d\<rparr>) = Inr s'" and
    d: "disco s' = ?d" and
    i: "(\<forall>t \<in> set (tareas ej_estado). lista t \<noteq> []) \<longrightarrow> tareas s' = tareas ej_estado" and
    u: "ultimo_id s' = (if tareas s' = [] then 0 else Max (id_tarea ` set (tareas s')))"
    by blast
  from i h have ts: "tareas s' = [ej_t1, ej_t2, ej_t3]"
    by (simp add: ej_estado_def)
  have "Max (id_tarea ` set [ej_t1, ej_t2, ej_t3]) = 3"
    by (simp add: ej_t1_def ej_t2_def ej_t3_def)
  with u ts have "ultimo_id s' = 3" by simp
  with ts d have "s' = \<lparr>tareas = [ej_t1, ej_t2, ej_t3], ultimo_id = 3, disco = ?d\<rparr>"
    by (cases s') simp
  with c rd show ?thesis by simp
qed

text \<open>
  The claim C4 as written, for every save, fails when the write fails, which
  \<^verbatim>\<open>guardar_tareas\<close> swallows: here \<^verbatim>\<open>open\<close> raises, no file comes to be, and the load
  that follows gives the empty collection and the counter 0 for a state that has three
  tasks.
\<close>

theorem guardar_fallido_counterexample:
  "tareas ej_estado = [ej_t1, ej_t2, ej_t3] \<and>
   cargar_tareas (guardar_tareas FalloAlAbrir ej_estado) =
     Inr \<lparr>tareas = [], ultimo_id = 0, disco = NoExiste\<rparr>"
  by (simp add: ej_estado_def cargar_tareas_def guardar_tareas_def)

subsection \<open>Deleting a list\<close>

text \<open>
  C5. \<^verbatim>\<open>eliminar_lista\<close> with the name \<^verbatim>\<open>"general"\<close> returns the state as it is, whatever
  it holds (it does not save either). With any other name \<open>n\<close> the collection that
  remains is the old one without the tasks whose list name reads \<open>n\<close>: a subsequence
  of the old collection, with no task of \<open>n\<close> left and, for every other name, the
  same tasks of that list in the same order. The id counter is unchanged.
\<close>

theorem eliminar_lista_efecto:
  "eliminar_lista w ''general'' s = (A_vista_listas, s) \<and>
   (n \<noteq> ''general'' \<longrightarrow>
      tareas (snd (eliminar_lista w n s)) = filter (\<lambda>t. nombre_lista t \<noteq> n) (tareas s) \<and>
      subseq (tareas (snd (eliminar_lista w n s))) (tareas s) \<and>
      tareas_de_lista n (tareas (snd (eliminar_lista w n s))) = [] \<and>
      (\<forall>l. l \<noteq> n \<longrightarrow>
         tareas_de_lista l (tareas (snd (eliminar_lista w n s))) = tareas_de_lista l (tareas s)) \<and>
      ultimo_id (snd (eliminar_lista w n s)) = ultimo_id s)"
proof -
  have g: "eliminar_lista w ''general'' s = (A_vista_listas, s)"
    by (simp add: eliminar_lista_def)
  have o: "tareas (snd (eliminar_lista w n s)) = filter (\<lambda>t. nombre_lista t \<noteq> n) (tareas s)"
    "ultimo_id (snd (eliminar_lista w n s)) = ultimo_id s" if "n \<noteq> ''general''"
    using that by (simp_all add: eliminar_lista_def)
  have v: "tareas_de_lista n (filter (\<lambda>t. nombre_lista t \<noteq> n) (tareas s)) = []"
    by (simp add: tareas_de_lista_def filter_empty_conv)
  have r: "tareas_de_lista l (filter (\<lambda>t. nombre_lista t \<noteq> n) (tareas s)) = tareas_de_lista l (tareas s)"
    if "l \<noteq> n" for l
    unfolding tareas_de_lista_def filter_filter
    by (rule filter_cong) (use that in auto)
  show ?thesis using g o v r by simp
qed

theorem eliminar_lista_efecto_witness:
  "''work'' \<noteq> ''general'' \<and>
   eliminar_lista Escrito ''general'' ej_estado = (A_vista_listas, ej_estado) \<and>
   tareas (snd (eliminar_lista Escrito ''work'' ej_estado)) = [ej_t1] \<and>
   tareas_de_lista ''work'' (tareas (snd (eliminar_lista Escrito ''work'' ej_estado))) = []"
proof -
  have n: "''work'' \<noteq> ''general''" by simp
  have f: "filter (\<lambda>t. nombre_lista t \<noteq> ''work'') (tareas ej_estado) = [ej_t1]"
    by (simp add: ej_estado_def ej_t1_def ej_t2_def ej_t3_def nombre_lista_def)
  note r = eliminar_lista_efecto [where w = Escrito and s = ej_estado and n = "''work''"]
  from r have g: "eliminar_lista Escrito ''general'' ej_estado = (A_vista_listas, ej_estado)"
    by blast
  from r n have "tareas (snd (eliminar_lista Escrito ''work'' ej_estado)) =
      filter (\<lambda>t. nombre_lista t \<noteq> ''work'') (tareas ej_estado)"
    by blast
  with f have a: "tareas (snd (eliminar_lista Escrito ''work'' ej_estado)) = [ej_t1]"
    by simp
  from r n have b: "tareas_de_lista ''work''
      (tareas (snd (eliminar_lista Escrito ''work'' ej_estado))) = []"
    by blast
  from n g a b show ?thesis by blast
qed

subsection \<open>Blank text\<close>

text \<open>
  C7. The route \<^verbatim>\<open>/agregar\<close> strips the text of the form and calls \<^verbatim>\<open>agregar_tarea\<close>
  only when something is left. So for every request whose stripped text is empty (the
  field absent, empty or all white space) no task is appended: the state after the
  request is the state before it, and the answer is the redirect to the list.
  (\<^verbatim>\<open>agregar_tarea\<close> itself has no check; this route is its only caller.)
\<close>

theorem texto_en_blanco_no_agrega:
  assumes "strip (param form_texto []) = []"
  shows "ruta_agregar_tarea w form_texto arg_lista s = (A_vista_tareas (param arg_lista ''general''), s)"
  using assms by (simp add: ruta_agregar_tarea_def Let_def)

theorem texto_en_blanco_no_agrega_witness:
  "strip (param (Some [CHR '' '', CHR 0x09, CHR '' '']) []) = [] \<and>
   ruta_agregar_tarea Escrito (Some [CHR '' '', CHR 0x09, CHR '' '']) (Some ''work'') ej_estado =
     (A_vista_tareas ''work'', ej_estado)"
proof -
  have h: "strip (param (Some [CHR '' '', CHR 0x09, CHR '' '']) []) = []"
    by (simp add: strip_def param_def es_espacio_def)
  from texto_en_blanco_no_agrega [OF h, of Escrito "Some ''work''" ej_estado] h
  show ?thesis by (simp add: param_def)
qed

subsection \<open>Renaming a list\<close>

lemma renombrar_sin_efecto:
  "strip (param form_nuevo []) = [] \<or> strip (param form_nuevo []) = viejo \<Longrightarrow>
     renombrar_lista w viejo form_nuevo s = (A_vista_listas, s)"
  by (auto simp: renombrar_lista_def Let_def)

lemma renombrar_tareas:
  "strip (param form_nuevo []) \<noteq> [] \<Longrightarrow> strip (param form_nuevo []) \<noteq> viejo \<Longrightarrow>
     tareas (snd (renombrar_lista w viejo form_nuevo s)) =
       map (\<lambda>t. if nombre_lista t = viejo then t\<lparr>lista := strip (param form_nuevo [])\<rparr> else t)
         (tareas s) \<and>
     ultimo_id (snd (renombrar_lista w viejo form_nuevo s)) = ultimo_id s"
  by (simp add: renombrar_lista_def Let_def)

lemma nombre_lista_renombrada: "nuevo \<noteq> [] \<Longrightarrow> nombre_lista (t\<lparr>lista := nuevo\<rparr>) = nuevo"
  by (simp add: nombre_lista_def)

text \<open>
  C8. Let \<open>nuevo\<close> be the new name as the route takes it (the form field, stripped).
  When \<open>nuevo\<close> is empty or equal to the old name, \<^verbatim>\<open>renombrar_lista\<close> leaves the state
  as it is. Otherwise the collection keeps its length and order; each task whose list name
  reads as the old name is the same record with \<open>lista = nuevo\<close>, each other task is
  the same record; afterwards no task is in the old list, and the new list holds, in
  order, the moved tasks and the tasks it had before. The id counter is unchanged.
\<close>

theorem renombrar_lista_efecto:
  "(strip (param form_nuevo []) = [] \<or> strip (param form_nuevo []) = viejo \<longrightarrow>
      snd (renombrar_lista w viejo form_nuevo s) = s) \<and>
   (strip (param form_nuevo []) \<noteq> [] \<and> strip (param form_nuevo []) \<noteq> viejo \<longrightarrow>
      list_all2
        (\<lambda>t t'. if nombre_lista t = viejo then t' = t\<lparr>lista := strip (param form_nuevo [])\<rparr>
                 else t' = t)
        (tareas s) (tareas (snd (renombrar_lista w viejo form_nuevo s))) \<and>
      tareas_de_lista viejo (tareas (snd (renombrar_lista w viejo form_nuevo s))) = [] \<and>
      tareas_de_lista (strip (param form_nuevo [])) (tareas (snd (renombrar_lista w viejo form_nuevo s))) =
        map (\<lambda>t. if nombre_lista t = viejo then t\<lparr>lista := strip (param form_nuevo [])\<rparr> else t)
          (filter (\<lambda>t. nombre_lista t = viejo \<or> nombre_lista t = strip (param form_nuevo []))
             (tareas s)) \<and>
      ultimo_id (snd (renombrar_lista w viejo form_nuevo s)) = ultimo_id s)"
proof -
  let ?nuevo = "strip (param form_nuevo [])"
  let ?f = "\<lambda>t. if nombre_lista t = viejo then t\<lparr>lista := ?nuevo\<rparr> else t"
  let ?s' = "snd (renombrar_lista w viejo form_nuevo s)"
  have a: "?nuevo = [] \<or> ?nuevo = viejo \<longrightarrow> ?s' = s"
    using renombrar_sin_efecto [of form_nuevo viejo w s] by auto
  have b: "list_all2 (\<lambda>t t'. if nombre_lista t = viejo then t' = t\<lparr>lista := ?nuevo\<rparr> else t' = t)
                (tareas s) (tareas ?s') \<and>
           tareas_de_lista viejo (tareas ?s') = [] \<and>
           tareas_de_lista ?nuevo (tareas ?s') =
             map ?f (filter (\<lambda>t. nombre_lista t = viejo \<or> nombre_lista t = ?nuevo) (tareas s)) \<and>
           ultimo_id ?s' = ultimo_id s"
    if n1: "?nuevo \<noteq> []" and n2: "?nuevo \<noteq> viejo"
  proof -
    from renombrar_tareas [OF n1 n2, of w s]
    have ts: "tareas ?s' = map ?f (tareas s)" and u: "ultimo_id ?s' = ultimo_id s"
      by simp_all
    have nl: "nombre_lista (?f t) = (if nombre_lista t = viejo then ?nuevo else nombre_lista t)" for t
      using n1 by (simp add: nombre_lista_renombrada)
    have l: "list_all2 (\<lambda>t t'. if nombre_lista t = viejo then t' = t\<lparr>lista := ?nuevo\<rparr> else t' = t)
               (tareas s) (tareas ?s')"
      unfolding ts by (simp add: list_all2_map2 list_all2_refl)
    have v: "tareas_de_lista viejo (tareas ?s') = []"
      unfolding ts tareas_de_lista_def filter_map comp_def nl
      using n2 by (simp add: filter_empty_conv)
    have "filter (\<lambda>t. nombre_lista (?f t) = ?nuevo) (tareas s) =
          filter (\<lambda>t. nombre_lista t = viejo \<or> nombre_lista t = ?nuevo) (tareas s)"
      by (rule filter_cong) (auto simp: nl)
    then have m: "tareas_de_lista ?nuevo (tareas ?s') =
             map ?f (filter (\<lambda>t. nombre_lista t = viejo \<or> nombre_lista t = ?nuevo) (tareas s))"
      unfolding ts tareas_de_lista_def filter_map comp_def by simp
    from l v m u show ?thesis by blast
  qed
  from a b show ?thesis by blast
qed

theorem renombrar_lista_efecto_witness:
  "strip (param (Some '' job '') []) = ''job'' \<and>
   tareas (snd (renombrar_lista Escrito ''work'' (Some '' job '') ej_estado)) =
     [ej_t1, ej_t2\<lparr>lista := ''job''\<rparr>, ej_t3\<lparr>lista := ''job''\<rparr>] \<and>
   tareas_de_lista ''work''
     (tareas (snd (renombrar_lista Escrito ''work'' (Some '' job '') ej_estado))) = [] \<and>
   tareas_de_lista ''job''
     (tareas (snd (renombrar_lista Escrito ''work'' (Some '' job '') ej_estado))) =
     [ej_t2\<lparr>lista := ''job''\<rparr>, ej_t3\<lparr>lista := ''job''\<rparr>]"
proof -
  have n: "strip (param (Some '' job '') []) = ''job''"
    by (simp add: strip_def param_def es_espacio_def)
  have ts: "tareas (snd (renombrar_lista Escrito ''work'' (Some '' job '') ej_estado)) =
     [ej_t1, ej_t2\<lparr>lista := ''job''\<rparr>, ej_t3\<lparr>lista := ''job''\<rparr>]"
    by (simp add: renombrar_lista_def n Let_def ej_estado_def ej_t1_def ej_t2_def ej_t3_def
        nombre_lista_def)
  have f: "map (\<lambda>t. if nombre_lista t = ''work'' then t\<lparr>lista := ''job''\<rparr> else t)
            (filter (\<lambda>t. nombre_lista t = ''work'' \<or> nombre_lista t = ''job'') (tareas ej_estado)) =
           [ej_t2\<lparr>lista := ''job''\<rparr>, ej_t3\<lparr>lista := ''job''\<rparr>]"
    by (simp add: ej_estado_def ej_t1_def ej_t2_def ej_t3_def nombre_lista_def)
  have d: "strip (param (Some '' job '') []) \<noteq> [] \<and>
           strip (param (Some '' job '') []) \<noteq> ''work''"
    by (simp add: n)
  note r = renombrar_lista_efecto [where form_nuevo = "Some '' job ''" and viejo = "''work''"
      and w = Escrito and s = ej_estado]
  from r d have v: "tareas_de_lista ''work''
      (tareas (snd (renombrar_lista Escrito ''work'' (Some '' job '') ej_estado))) = []"
    by blast
  from r d have "tareas_de_lista (strip (param (Some '' job '') []))
      (tareas (snd (renombrar_lista Escrito ''work'' (Some '' job '') ej_estado))) =
      map (\<lambda>t. if nombre_lista t = ''work''
               then t\<lparr>lista := strip (param (Some '' job '') [])\<rparr> else t)
        (filter (\<lambda>t. nombre_lista t = ''work'' \<or>
                     nombre_lista t = strip (param (Some '' job '') []))
           (tareas ej_estado))"
    by blast
  then have j: "tareas_de_lista ''job''
      (tareas (snd (renombrar_lista Escrito ''work'' (Some '' job '') ej_estado))) =
      [ej_t2\<lparr>lista := ''job''\<rparr>, ej_t3\<lparr>lista := ''job''\<rparr>]"
    unfolding n f .
  from n ts v j show ?thesis by blast
qed

subsection \<open>List names and the summary\<close>

lemma obtener_listas_Nil: "obtener_listas [] = [''general'']"
  by (simp add: obtener_listas_def)

lemma obtener_listas_no_vacia:
  "ts \<noteq> [] \<Longrightarrow>
     obtener_listas ts = sorted_list_of_set (insert ''general'' (nombre_lista ` set ts))"
  unfolding obtener_listas_def Let_def by (simp del: sorted_list_of_set_insert_remove)

lemma set_obtener_listas: "set (obtener_listas ts) = insert ''general'' (nombre_lista ` set ts)"
proof (cases "ts = []")
  case True
  then show ?thesis by (simp add: obtener_listas_Nil)
next
  case False
  have "finite (insert ''general'' (nombre_lista ` set ts))" by simp
  then have "set (sorted_list_of_set (insert ''general'' (nombre_lista ` set ts))) =
             insert ''general'' (nombre_lista ` set ts)"
    by (rule set_sorted_list_of_set)
  then show ?thesis by (simp only: obtener_listas_no_vacia [OF False])
qed

lemma sorted_obtener_listas: "sorted_wrt (<) (obtener_listas ts)"
proof (cases "ts = []")
  case True
  then show ?thesis by (simp add: obtener_listas_Nil)
next
  case False
  show ?thesis
    by (simp only: obtener_listas_no_vacia [OF False] strict_sorted_list_of_set)
qed

lemma nombres_resumen: "map nombre (construir_resumen_listas ts) = obtener_listas ts"
  by (simp add: construir_resumen_listas_def Let_def comp_def)

lemma ej_listas: "obtener_listas (tareas ej_estado) = [''general'', ''work'']"
  by (simp add: obtener_listas_def ej_estado_def ej_t1_def ej_t2_def ej_t3_def nombre_lista_def Let_def)

lemma ej_resumen: "construir_resumen_listas (tareas ej_estado) =
   [\<lparr>nombre = ''general'', total = 1, activas = 1, completadas = 0, tema_resumen = []\<rparr>,
    \<lparr>nombre = ''work'', total = 2, activas = 1, completadas = 1, tema_resumen = ''Q1 goals''\<rparr>]"
  unfolding construir_resumen_listas_def ej_listas
  by (simp add: tareas_de_lista_def Let_def ej_estado_def ej_t1_def ej_t2_def ej_t3_def nombre_lista_def)

text \<open>
  C10. \<^verbatim>\<open>crear_lista\<close> only builds a redirect: for every form it returns the state it
  was given (tasks, id counter and file), so the list names after it are the names
  before it. A name is among the names of \<^verbatim>\<open>obtener_listas\<close> exactly when it is
  \<^verbatim>\<open>"general"\<close> or some task carries it, and the summary has one entry per such name:
  a list without tasks, other than \<^verbatim>\<open>"general"\<close>, appears in neither.
\<close>

theorem crear_lista_no_muta:
  "snd (crear_lista form_nombre s) = s \<and>
   obtener_listas (tareas (snd (crear_lista form_nombre s))) = obtener_listas (tareas s) \<and>
   (\<forall>n. n \<in> set (obtener_listas (tareas s)) \<longleftrightarrow>
        n = ''general'' \<or> tareas_de_lista n (tareas s) \<noteq> []) \<and>
   map nombre (construir_resumen_listas (tareas s)) = obtener_listas (tareas s)"
proof -
  have a: "snd (crear_lista form_nombre s) = s"
    by (simp add: crear_lista_def Let_def)
  have b: "n \<in> set (obtener_listas (tareas s)) \<longleftrightarrow>
        n = ''general'' \<or> tareas_de_lista n (tareas s) \<noteq> []" for n
    by (auto simp: set_obtener_listas tareas_de_lista_def filter_empty_conv)
  from a b nombres_resumen [of "tareas s"] show ?thesis by simp
qed

theorem crear_lista_no_muta_witness:
  "crear_lista (Some ''home'') ej_estado = (A_vista_tareas ''home'', ej_estado) \<and>
   obtener_listas (tareas (snd (crear_lista (Some ''home'') ej_estado))) = [''general'', ''work''] \<and>
   ''home'' \<notin> set (obtener_listas (tareas (snd (crear_lista (Some ''home'') ej_estado))))"
proof -
  have c: "crear_lista (Some ''home'') ej_estado = (A_vista_tareas ''home'', ej_estado)"
    by (simp add: crear_lista_def strip_def param_def es_espacio_def)
  from crear_lista_no_muta [of "Some ''home''" ej_estado] c ej_listas
  show ?thesis by simp
qed

lemma primer_tema_find:
  "primer_tema (filter P ts) =
     (case find (\<lambda>t. P t \<and> tema t \<noteq> []) ts of None \<Rightarrow> [] | Some t \<Rightarrow> tema t)"
  by (induction ts) simp_all

lemma contar_filtro:
  "length (filter Q (tareas_de_lista n ts)) = card {k. k < length ts \<and> nombre_lista (ts ! k) = n \<and> Q (ts ! k)}"
  by (simp add: tareas_de_lista_def length_filter_conv_card)

lemma contar_lista:
  "length (tareas_de_lista n ts) = card {k. k < length ts \<and> nombre_lista (ts ! k) = n}"
  by (simp add: tareas_de_lista_def length_filter_conv_card)

text \<open>
  C6. For every collection, \<^verbatim>\<open>obtener_listas\<close> is strictly ascending (sorted, no name
  twice) and its elements are \<^verbatim>\<open>"general"\<close> and the list names of all tasks, disabled
  ones included. \<^verbatim>\<open>construir_resumen_listas\<close> has one entry per such name, in that
  order, with: \<open>total\<close> the number of positions of the collection whose task is in the
  list; \<open>activas\<close> the number of those whose task is not disabled; \<open>completadas\<close>
  the number of those whose task is completed; and as theme the theme of the first task
  of the collection that is in the list and has a non-empty theme, the empty string when
  there is none.
\<close>

theorem listas_y_resumen:
  "sorted_wrt (<) (obtener_listas ts) \<and>
   set (obtener_listas ts) = insert ''general'' (nombre_lista ` set ts) \<and>
   construir_resumen_listas ts =
     map (\<lambda>n. \<lparr> nombre = n,
                 total = card {k. k < length ts \<and> nombre_lista (ts ! k) = n},
                 activas = card {k. k < length ts \<and> nombre_lista (ts ! k) = n \<and>
                                    \<not> inhabilitada (ts ! k)},
                 completadas = card {k. k < length ts \<and> nombre_lista (ts ! k) = n \<and>
                                        completada (ts ! k)},
                 tema_resumen =
                   (case find (\<lambda>t. nombre_lista t = n \<and> tema t \<noteq> []) ts of
                      None \<Rightarrow> [] | Some t \<Rightarrow> tema t) \<rparr>)
         (obtener_listas ts)"
proof -
  have r: "construir_resumen_listas ts =
     map (\<lambda>n. \<lparr> nombre = n,
                 total = card {k. k < length ts \<and> nombre_lista (ts ! k) = n},
                 activas = card {k. k < length ts \<and> nombre_lista (ts ! k) = n \<and>
                                    \<not> inhabilitada (ts ! k)},
                 completadas = card {k. k < length ts \<and> nombre_lista (ts ! k) = n \<and>
                                        completada (ts ! k)},
                 tema_resumen =
                   (case find (\<lambda>t. nombre_lista t = n \<and> tema t \<noteq> []) ts of
                      None \<Rightarrow> [] | Some t \<Rightarrow> tema t) \<rparr>)
         (obtener_listas ts)"
    unfolding construir_resumen_listas_def Let_def contar_filtro contar_lista
    by (simp only: tareas_de_lista_def primer_tema_find)
  from sorted_obtener_listas [of ts] set_obtener_listas [of ts] r show ?thesis
    by (intro conjI)
qed

theorem listas_y_resumen_witness:
  "sorted_wrt (<) (obtener_listas (tareas ej_estado)) \<and>
   obtener_listas (tareas ej_estado) = [''general'', ''work''] \<and>
   construir_resumen_listas (tareas ej_estado) =
     [\<lparr>nombre = ''general'', total = 1, activas = 1, completadas = 0, tema_resumen = []\<rparr>,
      \<lparr>nombre = ''work'', total = 2, activas = 1, completadas = 1,
        tema_resumen = ''Q1 goals''\<rparr>]"
proof -
  from listas_y_resumen [of "tareas ej_estado"]
  have "sorted_wrt (<) (obtener_listas (tareas ej_estado))" by blast
  with ej_listas ej_resumen show ?thesis by simp
qed

end
